theory Spec2Isabelle
  imports Main "HOL-Library.Word"
begin

section \<open>BaseDropdown.vue: the data model\<close>

text \<open>
  The component \<^verbatim>\<open>src/components/BaseDropdown.vue\<close> is embedded function by function.
  Its reactive refs, the part of the document it touches (the focused element, the
  registration of its click listener, the pending \<^verbatim>\<open>setTimeout\<close> callbacks) and the
  events it emits are the fields of one record that every function takes and returns.
\<close>

subsection \<open>DOM elements and events\<close>

text \<open>
  A DOM element is known to the component by its identity, by whether it is an
  \<^verbatim>\<open>HTMLButtonElement\<close> (the \<^verbatim>\<open>instanceof\<close> tests) and, for a button, by its
  \<^verbatim>\<open>textContent\<close>. Two elements are the same object exactly when they are equal values;
  distinct elements carry distinct identifiers.

  The text of an element, and the value emitted from it, is a JavaScript string: a
  sequence of 16-bit code units, the level at which \<^verbatim>\<open>trim\<close> is defined.
\<close>

type_synonym jsString = "16 word list"

record htmlButtonElement =
  buttonId :: nat
  textContent :: jsString

datatype element =
    HTMLButtonElement htmlButtonElement
  | OtherElement nat

text \<open>
  An \<^verbatim>\<open>li\<close> of the menu; the component only ever calls \<^verbatim>\<open>querySelector('button')\<close> on
  it, which returns the first button below it or \<^verbatim>\<open>null\<close>.
\<close>

datatype menuItemElement =
  MenuItemElement (menuItemId: nat) (querySelectorButton: "htmlButtonElement option")

record event =
  target :: element

record keyboardEvent = event +
  key :: string

record focusEvent = event +
  relatedTarget :: "element option"

subsection \<open>Props, emits and the component's state\<close>

datatype variant = Regular | Outlined

record props =
  id_prop :: string
  name :: "string option"
  modelValue :: string
  errorText :: string
  isErrorShown :: bool
  placeholder :: "string option"
  isRequired :: bool
  options :: "string list"
  isFilter :: bool
  isActiveFilter :: bool
  variant :: variant

text \<open>The two events of \<^verbatim>\<open>defineEmits\<close>, with their payloads.\<close>

datatype emitted =
    UpdateModelValue jsString
  | PrincipalButtonFocusIn focusEvent

text \<open>
  \<^item> \<open>isMenuOpened\<close>, \<open>principalMenu\<close>, \<open>menuItems\<close>, \<open>menuItemButtons\<close>: the four refs of
    the script. \<open>principalMenu\<close> is \<open>None\<close> while the template ref is \<^verbatim>\<open>null\<close>.
  \<^item> \<open>activeElement\<close>: the element of the document that has focus; \<^verbatim>\<open>el.focus()\<close>
    makes it \<open>el\<close>.
  \<^item> \<open>clickListener\<close>: whether \<^verbatim>\<open>closeMenuOnOutsideClick\<close> is registered for
    \<^verbatim>\<open>'click'\<close> on the document. The DOM keeps one registration per callback, so a
    second \<^verbatim>\<open>addEventListener\<close> with the same function changes nothing.
  \<^item> \<open>pendingTimeouts\<close>: the number of \<^verbatim>\<open>setTimeout\<close> callbacks scheduled by the
    watcher that have not run yet.
  \<^item> \<open>emitted\<close>: the calls of \<^verbatim>\<open>emits\<close>, oldest first.
  \<^item> \<open>defaultPrevented\<close>: whether the handler called \<^verbatim>\<open>event.preventDefault()\<close> on the
    event it is handling.
\<close>

record dropdown =
  isMenuOpened :: bool
  principalMenu :: "element option"
  menuItems :: "menuItemElement list"
  menuItemButtons :: "htmlButtonElement list"
  activeElement :: "element option"
  clickListener :: bool
  pendingTimeouts :: nat
  emitted :: "emitted list"
  defaultPrevented :: bool

text \<open>Calling a method on \<^verbatim>\<open>undefined\<close> throws a \<^verbatim>\<open>TypeError\<close>.\<close>

datatype error = TypeError

subsection \<open>JavaScript built-ins used by the script\<close>

text \<open>
  \<^verbatim>\<open>Array.prototype.indexOf\<close>: the first index holding the element, \<open>-1\<close> when there
  is none.
\<close>

fun indexOfFrom :: "'a list \<Rightarrow> 'a \<Rightarrow> int \<Rightarrow> int" where
  "indexOfFrom [] x k = - 1"
| "indexOfFrom (y # ys) x k = (if y = x then k else indexOfFrom ys x (k + 1))"

definition indexOf :: "'a list \<Rightarrow> 'a \<Rightarrow> int" where
  "indexOf xs x = indexOfFrom xs x 0"

text \<open>\<^verbatim>\<open>xs[i]\<close>: \<^verbatim>\<open>undefined\<close> (here \<open>None\<close>) outside the array.\<close>

definition arrayGet :: "'a list \<Rightarrow> int \<Rightarrow> 'a option" where
  "arrayGet xs i = (if 0 \<le> i \<and> i < int (length xs) then Some (xs ! nat i) else None)"

text \<open>
  \<^verbatim>\<open>String.prototype.trim\<close> removes white space and line terminators from both ends.
  White space is tab U+0009, vertical tab U+000B, form feed U+000C, the byte order mark
  U+FEFF and the space separators U+0020, U+00A0, U+1680, U+2000 to U+200A, U+202F,
  U+205F and U+3000; the line terminators are U+000A, U+000D, U+2028 and U+2029. All of
  them are single code units.
\<close>

definition isWhiteSpace :: "16 word \<Rightarrow> bool" where
  "isWhiteSpace c =
     (c \<in> set [0x0009, 0x000A, 0x000B, 0x000C, 0x000D, 0x0020, 0x00A0, 0x1680,
                0x2000, 0x2001, 0x2002, 0x2003, 0x2004, 0x2005, 0x2006, 0x2007, 0x2008,
                0x2009, 0x200A, 0x2028, 0x2029, 0x202F, 0x205F, 0x3000, 0xFEFF])"

definition trim :: "jsString \<Rightarrow> jsString" where
  "trim s = rev (dropWhile isWhiteSpace (rev (dropWhile isWhiteSpace s)))"

text \<open>The code units of a string of one-byte characters, for writing texts down.\<close>

definition codeUnits :: "string \<Rightarrow> jsString" where
  "codeUnits s = map of_char s"

text \<open>Sequencing of statements that may throw.\<close>

definition andThen :: "error + 'a \<Rightarrow> ('a \<Rightarrow> error + 'b) \<Rightarrow> error + 'b" where
  "andThen r f = (case r of Inl e \<Rightarrow> Inl e | Inr s \<Rightarrow> f s)"

section \<open>The functions of the script\<close>

text \<open>\<^verbatim>\<open>isSelectedOption\<close> (lines 86-88).\<close>

definition isSelectedOption :: "props \<Rightarrow> string \<Rightarrow> bool" where
  "isSelectedOption p menuOption = (menuOption = modelValue p)"

text \<open>\<^verbatim>\<open>handlePrincipalButtonFocusIn\<close> (lines 107-111).\<close>

definition handlePrincipalButtonFocusIn :: "props \<Rightarrow> dropdown \<Rightarrow> focusEvent \<Rightarrow> dropdown" where
  "handlePrincipalButtonFocusIn p s ev =
     (if isErrorShown p then s\<lparr>emitted := emitted s @ [PrincipalButtonFocusIn ev]\<rparr> else s)"

text \<open>\<^verbatim>\<open>openMenu\<close> (lines 114-118).\<close>

definition openMenu :: "dropdown \<Rightarrow> dropdown" where
  "openMenu s = s\<lparr>isMenuOpened := True\<rparr>"

text \<open>\<^verbatim>\<open>closeMenu\<close> (lines 121-126): clears the flag and removes the document listener.\<close>

definition closeMenu :: "dropdown \<Rightarrow> dropdown" where
  "closeMenu s = s\<lparr>isMenuOpened := False, clickListener := False\<rparr>"

text \<open>\<^verbatim>\<open>el.focus()\<close>.\<close>

definition focus :: "element \<Rightarrow> dropdown \<Rightarrow> dropdown" where
  "focus el s = s\<lparr>activeElement := Some el\<rparr>"

text \<open>
  \<^verbatim>\<open>menuItemButtons.value[i].focus()\<close>: throws when the array has no element at \<open>i\<close>.
\<close>

definition focusMenuButtonAt :: "int \<Rightarrow> dropdown \<Rightarrow> error + dropdown" where
  "focusMenuButtonAt i s =
     (case arrayGet (menuItemButtons s) i of
        None \<Rightarrow> Inl TypeError
      | Some b \<Rightarrow> Inr (focus (HTMLButtonElement b) s))"

text \<open>
  \<^verbatim>\<open>focusFirstMenuButton\<close> (lines 129-131): \<^verbatim>\<open>menuItemButtons.value[0]?.focus()\<close>; the
  optional chaining skips the call on an empty array.
\<close>

definition focusFirstMenuButton :: "dropdown \<Rightarrow> dropdown" where
  "focusFirstMenuButton s =
     (case arrayGet (menuItemButtons s) 0 of
        None \<Rightarrow> s
      | Some b \<Rightarrow> focus (HTMLButtonElement b) s)"

text \<open>\<^verbatim>\<open>handlePrincipalButtonClick\<close> (lines 134-140).\<close>

definition handlePrincipalButtonClick :: "dropdown \<Rightarrow> dropdown" where
  "handlePrincipalButtonClick s = (if isMenuOpened s then closeMenu s else openMenu s)"

text \<open>
  \<^verbatim>\<open>if (principalMenu.value) { principalMenu.value.focus() }\<close>, as it ends the click
  handler and the Escape branch.
\<close>

definition focusPrincipalMenu :: "dropdown \<Rightarrow> dropdown" where
  "focusPrincipalMenu s = (case principalMenu s of None \<Rightarrow> s | Some el \<Rightarrow> focus el s)"

text \<open>
  \<^verbatim>\<open>handleMenuButtonClick\<close> (lines 146-161). A non-empty string is the only truthy
  \<^verbatim>\<open>textContent\<close>.
\<close>

definition handleMenuButtonClick :: "dropdown \<Rightarrow> 'a event_scheme \<Rightarrow> dropdown" where
  "handleMenuButtonClick s ev =
     (let s1 = (case target ev of
                  HTMLButtonElement buttonElement \<Rightarrow>
                    (if textContent buttonElement \<noteq> []
                     then s\<lparr>emitted := emitted s @ [UpdateModelValue (trim (textContent buttonElement))]\<rparr>
                     else s)
                | OtherElement _ \<Rightarrow> s)
      in focusPrincipalMenu (closeMenu s1))"

text \<open>
  \<^verbatim>\<open>handleMenuButtonKeyInput\<close> (lines 167-215), one definition for each of its four
  \<^verbatim>\<open>if (event.key === ...)\<close> blocks, run in the order of the source.
\<close>

definition onArrowUp :: "string \<Rightarrow> int \<Rightarrow> int \<Rightarrow> dropdown \<Rightarrow> error + dropdown" where
  "onArrowUp k currentButtonIndex lastIndex s =
     (if k = ''ArrowUp'' then
        andThen
          (let s1 = s\<lparr>defaultPrevented := True\<rparr> in
           if currentButtonIndex > 0 \<and> currentButtonIndex \<le> lastIndex
           then focusMenuButtonAt (currentButtonIndex - 1) s1
           else Inr s1)
          (\<lambda>s2. if currentButtonIndex = 0 then focusMenuButtonAt lastIndex s2 else Inr s2)
      else Inr s)"

definition onArrowDown :: "string \<Rightarrow> int \<Rightarrow> int \<Rightarrow> dropdown \<Rightarrow> error + dropdown" where
  "onArrowDown k currentButtonIndex lastIndex s =
     (if k = ''ArrowDown'' then
        andThen
          (let s1 = s\<lparr>defaultPrevented := True\<rparr> in
           if currentButtonIndex \<ge> 0 \<and> currentButtonIndex < lastIndex
           then focusMenuButtonAt (currentButtonIndex + 1) s1
           else Inr s1)
          (\<lambda>s2. if currentButtonIndex = lastIndex then focusMenuButtonAt 0 s2 else Inr s2)
      else Inr s)"

definition onEscape :: "string \<Rightarrow> dropdown \<Rightarrow> dropdown" where
  "onEscape k s = (if k = ''Escape'' then focusPrincipalMenu (closeMenu s) else s)"

definition onTab :: "string \<Rightarrow> dropdown \<Rightarrow> dropdown" where
  "onTab k s = (if k = ''Tab'' then closeMenu s else s)"

definition handleMenuButtonKeyInput :: "dropdown \<Rightarrow> 'a keyboardEvent_scheme \<Rightarrow> error + dropdown" where
  "handleMenuButtonKeyInput s ev =
     (case target ev of
        HTMLButtonElement currentButton \<Rightarrow>
          (let currentButtonIndex = indexOf (menuItemButtons s) currentButton;
               lastIndex = int (length (menuItemButtons s)) - 1
           in andThen (onArrowUp (key ev) currentButtonIndex lastIndex s)
                (\<lambda>s1. andThen (onArrowDown (key ev) currentButtonIndex lastIndex s1)
                   (\<lambda>s2. Inr (onTab (key ev) (onEscape (key ev) s2)))))
      | OtherElement _ \<Rightarrow> Inr s)"

text \<open>
  The \<^verbatim>\<open>forEach\<close> of the watcher (lines 224-230): each menu item's button, when it has
  one, is pushed onto the array.
\<close>

fun pushMenuItemButtons :: "menuItemElement list \<Rightarrow> htmlButtonElement list \<Rightarrow> htmlButtonElement list" where
  "pushMenuItemButtons [] buttons = buttons"
| "pushMenuItemButtons (menuItem # rest) buttons =
     (case querySelectorButton menuItem of
        Some menuItemButton \<Rightarrow> pushMenuItemButtons rest (buttons @ [menuItemButton])
      | None \<Rightarrow> pushMenuItemButtons rest buttons)"

text \<open>
  The body of \<^verbatim>\<open>watchEffect\<close> (lines 218-239), as one run of the effect. The callback
  handed to \<^verbatim>\<open>setTimeout\<close> is counted in \<open>pendingTimeouts\<close> and runs later, as
  \<open>timeoutCallback\<close>.
\<close>

definition watchEffect :: "dropdown \<Rightarrow> dropdown" where
  "watchEffect s =
     (if isMenuOpened s then
        (let s1 = s\<lparr>menuItemButtons := []\<rparr>;
             s2 = s1\<lparr>menuItemButtons := pushMenuItemButtons (menuItems s1) (menuItemButtons s1)\<rparr>;
             s3 = focusFirstMenuButton s2
         in s3\<lparr>pendingTimeouts := pendingTimeouts s3 + 1\<rparr>)
      else s)"

text \<open>
  The arrow function of line 236, run by the timer: \<open>None\<close> when no callback is pending.
\<close>

definition timeoutCallback :: "dropdown \<Rightarrow> dropdown option" where
  "timeoutCallback s =
     (if pendingTimeouts s = 0 then None
      else Some (s\<lparr>pendingTimeouts := pendingTimeouts s - 1, clickListener := True\<rparr>))"

text \<open>\<^verbatim>\<open>closeMenuOnOutsideClick\<close> (lines 242-249).\<close>

definition isMenuButton :: "dropdown \<Rightarrow> element \<Rightarrow> bool" where
  "isMenuButton s el =
     (case el of
        HTMLButtonElement b \<Rightarrow> List.member (menuItemButtons s) b
      | OtherElement _ \<Rightarrow> False)"

definition closeMenuOnOutsideClick :: "dropdown \<Rightarrow> 'a event_scheme \<Rightarrow> dropdown" where
  "closeMenuOnOutsideClick s ev = (if \<not> isMenuButton s (target ev) then closeMenu s else s)"

text \<open>
  A click that reaches the document: the listener runs only while it is registered.
\<close>

definition documentClick :: "dropdown \<Rightarrow> 'a event_scheme \<Rightarrow> dropdown" where
  "documentClick s ev = (if clickListener s then closeMenuOnOutsideClick s ev else s)"

text \<open>\<^verbatim>\<open>onBeforeUnmount\<close> (lines 251-253).\<close>

definition onBeforeUnmount :: "dropdown \<Rightarrow> dropdown" where
  "onBeforeUnmount s = s\<lparr>clickListener := False\<rparr>"

text \<open>
  The template (lines 278-300) renders the list only while the menu is open: one
  \<^verbatim>\<open>li\<close> for each option, in order, each holding one button. \<open>rendered\<close> says that
  \<open>items\<close> are these elements, which the \<^verbatim>\<open>ref="menuItems"\<close> of the template then
  puts in the \<open>menuItems\<close> ref.
\<close>

definition rendered :: "props \<Rightarrow> menuItemElement list \<Rightarrow> bool" where
  "rendered p items =
     (length items = length (options p) \<and>
      list_all (\<lambda>menuItem. querySelectorButton menuItem \<noteq> None) items)"

text \<open>
  The content of a menu button (lines 296-297): the option, then the white space before
  the check mark, which the template compiler keeps as one space; the white space at both
  ends of the content is dropped. \<open>itemText\<close> is the text up to the check mark.
\<close>

definition itemText :: "jsString \<Rightarrow> jsString" where
  "itemText option = option @ [0x0020]"

section \<open>Example states\<close>

text \<open>
  The scenario of the specification: options Alpha, Beta, Gamma, with Beta selected. The
  check mark is an icon without text.
\<close>

definition alpha :: htmlButtonElement where
  "alpha = \<lparr>buttonId = 0, textContent = itemText (codeUnits ''Alpha'')\<rparr>"

definition beta :: htmlButtonElement where
  "beta = \<lparr>buttonId = 1, textContent = itemText (codeUnits ''Beta'')\<rparr>"

definition gamma :: htmlButtonElement where
  "gamma = \<lparr>buttonId = 2, textContent = itemText (codeUnits ''Gamma'')\<rparr>"

text \<open>A button without text, and the check-mark icon drawn inside the selected item.\<close>

definition blank :: htmlButtonElement where
  "blank = \<lparr>buttonId = 3, textContent = []\<rparr>"

definition checkMark :: element where
  "checkMark = OtherElement 200"

definition trigger :: element where
  "trigger = OtherElement 100"

definition threeOptions :: props where
  "threeOptions = \<lparr>id_prop = ''dropdown'', name = None, modelValue = ''Beta'', errorText = '''',
     isErrorShown = False, placeholder = None, isRequired = False,
     options = [''Alpha'', ''Beta'', ''Gamma''], isFilter = False, isActiveFilter = False,
     variant = Regular\<rparr>"

text \<open>The component right after it is mounted: closed, nothing registered or scheduled.\<close>

definition mounted :: dropdown where
  "mounted = \<lparr>isMenuOpened = False, principalMenu = Some trigger, menuItems = [],
     menuItemButtons = [], activeElement = None, clickListener = False,
     pendingTimeouts = 0, emitted = [], defaultPrevented = False\<rparr>"

text \<open>The three menu items of the scenario.\<close>

definition threeItems :: "menuItemElement list" where
  "threeItems =
     [MenuItemElement 10 (Some alpha), MenuItemElement 11 (Some beta), MenuItemElement 12 (Some gamma)]"

text \<open>Open on the three options, the first button focused, the listener installed.\<close>

definition opened :: dropdown where
  "opened = mounted\<lparr>isMenuOpened := True,
     menuItems := threeItems,
     menuItemButtons := [alpha, beta, gamma],
     activeElement := Some (HTMLButtonElement alpha), clickListener := True\<rparr>"

text \<open>Open on a single item whose button has no text.\<close>

definition openedBlank :: dropdown where
  "openedBlank = mounted\<lparr>isMenuOpened := True,
     menuItems := [MenuItemElement 13 (Some blank)],
     menuItemButtons := [blank],
     activeElement := Some (HTMLButtonElement blank), clickListener := True\<rparr>"

section \<open>Facts about the built-ins and the watcher\<close>

lemma indexOfFrom_nth:
  "distinct xs \<Longrightarrow> i < length xs \<Longrightarrow> indexOfFrom xs (xs ! i) k = k + int i"
proof (induction xs arbitrary: i k)
  case Nil
  then show ?case by simp
next
  case (Cons y ys)
  show ?case
  proof (cases i)
    case 0
    then show ?thesis by simp
  next
    case (Suc j)
    with Cons.prems have "ys ! j \<in> set ys" "y \<notin> set ys" "j < length ys" "distinct ys"
      by auto
    then have "y \<noteq> ys ! j" by auto
    with Cons.IH [of j "k + 1"] Suc \<open>distinct ys\<close> \<open>j < length ys\<close> show ?thesis by simp
  qed
qed

lemma indexOf_nth: "distinct xs \<Longrightarrow> i < length xs \<Longrightarrow> indexOf xs (xs ! i) = int i"
  by (simp add: indexOf_def indexOfFrom_nth)

lemma indexOfFrom_notin: "x \<notin> set xs \<Longrightarrow> indexOfFrom xs x k = - 1"
  by (induction xs arbitrary: k) auto

lemma indexOf_notin: "x \<notin> set xs \<Longrightarrow> indexOf xs x = - 1"
  by (simp add: indexOf_def indexOfFrom_notin)

lemma pushMenuItemButtons_eq:
  "pushMenuItemButtons ms buttons = buttons @ List.map_filter querySelectorButton ms"
  by (induction ms arbitrary: buttons) (auto simp: List.map_filter_simps split: option.splits)

lemma arrayGet_nth: "i < length xs \<Longrightarrow> arrayGet xs (int i) = Some (xs ! i)"
  by (simp add: arrayGet_def)


lemma next_index:
  "i < N \<Longrightarrow> nat ((int i + 1) mod int N) = (if Suc i < N then Suc i else 0)"
proof (cases "Suc i < N")
  case True
  then have "(int i + 1) mod int N = int i + 1" by simp
  with True show ?thesis by simp
next
  case False
  assume "i < N"
  with False have "int i + 1 = int N" by simp
  then have "(int i + 1) mod int N = 0" by simp
  with False show ?thesis by simp
qed

lemma prev_index:
  "i < N \<Longrightarrow> nat ((int i - 1 + int N) mod int N) = (if i = 0 then N - 1 else i - 1)"
proof (cases "i = 0")
  case True
  assume "i < N"
  with True have "(int i - 1 + int N) mod int N = int N - 1" by (simp add: zmod_minus1)
  with True show ?thesis by (simp add: nat_diff_distrib')
next
  case False
  assume "i < N"
  with False have "(int i - 1 + int N) mod int N = int i - 1" by simp
  with False show ?thesis by (simp add: nat_diff_distrib')
qed

lemma arrowDown_focus:
  assumes d: "distinct (menuItemButtons s)"
    and i: "i < length (menuItemButtons s)"
    and t: "target ev = HTMLButtonElement (menuItemButtons s ! i)"
    and k: "key ev = ''ArrowDown''"
  shows "handleMenuButtonKeyInput s ev =
           Inr (s\<lparr>defaultPrevented := True,
                  activeElement := Some (HTMLButtonElement
                    (menuItemButtons s ! (if Suc i < length (menuItemButtons s) then Suc i else 0)))\<rparr>)"
proof -
  have idx: "indexOf (menuItemButtons s) (menuItemButtons s ! i) = int i"
    using d i by (rule indexOf_nth)
  show ?thesis
  proof (cases "Suc i < length (menuItemButtons s)")
    case True
    then have g: "arrayGet (menuItemButtons s) (int i + 1) = Some (menuItemButtons s ! Suc i)"
      by (simp add: arrayGet_def nat_add_distrib)
    from True have c: "int i < int (length (menuItemButtons s)) - 1"
      "int i \<noteq> int (length (menuItemButtons s)) - 1" by simp_all
    show ?thesis
      using True i k t
      by (simp add: handleMenuButtonKeyInput_def onArrowUp_def onArrowDown_def onEscape_def
          onTab_def andThen_def focusMenuButtonAt_def focus_def Let_def idx g c)
  next
    case False
    with i have c: "int i = int (length (menuItemButtons s)) - 1" by simp
    from i have g: "arrayGet (menuItemButtons s) 0 = Some (menuItemButtons s ! 0)"
      by (auto simp: arrayGet_def)
    show ?thesis
      using False i k t
      by (simp add: handleMenuButtonKeyInput_def onArrowUp_def onArrowDown_def onEscape_def
          onTab_def andThen_def focusMenuButtonAt_def focus_def Let_def idx g c)
  qed
qed

lemma arrowUp_focus:
  assumes d: "distinct (menuItemButtons s)"
    and i: "i < length (menuItemButtons s)"
    and t: "target ev = HTMLButtonElement (menuItemButtons s ! i)"
    and k: "key ev = ''ArrowUp''"
  shows "handleMenuButtonKeyInput s ev =
           Inr (s\<lparr>defaultPrevented := True,
                  activeElement := Some (HTMLButtonElement
                    (menuItemButtons s ! (if i = 0 then length (menuItemButtons s) - 1 else i - 1)))\<rparr>)"
proof -
  have idx: "indexOf (menuItemButtons s) (menuItemButtons s ! i) = int i"
    using d i by (rule indexOf_nth)
  show ?thesis
  proof (cases "i = 0")
    case True
    from i have g: "arrayGet (menuItemButtons s) (int (length (menuItemButtons s)) - 1)
        = Some (menuItemButtons s ! (length (menuItemButtons s) - 1))"
      by (auto simp: arrayGet_def nat_diff_distrib')
    show ?thesis
      using True k t idx g
      by (simp add: handleMenuButtonKeyInput_def onArrowUp_def onArrowDown_def onEscape_def
          onTab_def andThen_def focusMenuButtonAt_def focus_def Let_def)
  next
    case False
    with i have g: "arrayGet (menuItemButtons s) (int i - 1) = Some (menuItemButtons s ! (i - 1))"
      by (auto simp: arrayGet_def nat_diff_distrib')
    from False i have c: "0 < int i" "int i \<le> int (length (menuItemButtons s)) - 1" "int i \<noteq> 0"
      by simp_all
    show ?thesis
      using False i k t
      by (simp add: handleMenuButtonKeyInput_def onArrowUp_def onArrowDown_def onEscape_def
          onTab_def andThen_def focusMenuButtonAt_def focus_def Let_def idx g c)
  qed
qed

lemma map_filter_all_Some:
  "list_all (\<lambda>x. f x \<noteq> None) xs \<Longrightarrow> map Some (List.map_filter f xs) = map f xs"
  by (induction xs) (auto simp: List.map_filter_simps split: option.splits)

lemma watchEffect_opened:
  "isMenuOpened s \<Longrightarrow>
   watchEffect s =
     (let bs = List.map_filter querySelectorButton (menuItems s)
      in s\<lparr>menuItemButtons := bs,
           activeElement := (case bs of [] \<Rightarrow> activeElement s | b # _ \<Rightarrow> Some (HTMLButtonElement b)),
           pendingTimeouts := pendingTimeouts s + 1\<rparr>)"
  by (cases "List.map_filter querySelectorButton (menuItems s)")
    (simp_all add: watchEffect_def pushMenuItemButtons_eq focusFirstMenuButton_def arrayGet_def
      focus_def Let_def)

text \<open>
  Trimming removes every kind of white space at both ends, the no-break space and the
  byte order mark included; the text of an item whose option has no white space at
  either end trims to the option.
\<close>

lemma trim_removes_unicode_spaces:
  "trim ([0x00A0, 0x0009] @ codeUnits ''Gamma'' @ [0xFEFF, 0x2028, 0x3000]) = codeUnits ''Gamma''"
  by (simp add: trim_def codeUnits_def isWhiteSpace_def)

lemma trim_itemText:
  assumes "option \<noteq> []" and "\<not> isWhiteSpace (hd option)" and "\<not> isWhiteSpace (last option)"
  shows "trim (itemText option) = option"
proof -
  from assms(1,2) have a: "dropWhile isWhiteSpace (option @ [0x0020]) = option @ [0x0020]"
    by (cases option) simp_all
  have s: "isWhiteSpace 0x0020"
    by (simp add: isWhiteSpace_def)
  from assms(1,3) have b: "dropWhile isWhiteSpace (rev option) = rev option"
    by (cases option rule: rev_cases) simp_all
  show ?thesis
    by (simp add: trim_def itemText_def a b s)
qed

section \<open>Properties\<close>

subsection \<open>Arrow keys\<close>

text \<open>
  C1. With \<open>N \<ge> 1\<close> distinct handles and the key event on the handle at index
  \<open>i < N\<close>, ArrowDown moves the focus to the handle at index \<open>(i + 1) mod N\<close> and
  ArrowUp to the handle at index \<open>(i - 1 + N) mod N\<close>; nothing else changes but the
  event's default being prevented.
\<close>

theorem moveFocus_wraps:
  assumes d: "distinct (menuItemButtons s)"
    and i: "i < length (menuItemButtons s)"
    and t: "target ev = HTMLButtonElement (menuItemButtons s ! i)"
    and n: "n = int (length (menuItemButtons s))"
  shows "(key ev = ''ArrowDown'' \<longrightarrow>
            handleMenuButtonKeyInput s ev =
              Inr (s\<lparr>defaultPrevented := True,
                     activeElement := Some (HTMLButtonElement (menuItemButtons s ! nat ((int i + 1) mod n)))\<rparr>))
       \<and> (key ev = ''ArrowUp'' \<longrightarrow>
            handleMenuButtonKeyInput s ev =
              Inr (s\<lparr>defaultPrevented := True,
                     activeElement := Some (HTMLButtonElement (menuItemButtons s ! nat ((int i - 1 + n) mod n)))\<rparr>))"
proof (intro conjI impI)
  assume k: "key ev = ''ArrowDown''"
  show "handleMenuButtonKeyInput s ev =
              Inr (s\<lparr>defaultPrevented := True,
                     activeElement := Some (HTMLButtonElement (menuItemButtons s ! nat ((int i + 1) mod n)))\<rparr>)"
    unfolding n next_index [OF i] by (rule arrowDown_focus [OF d i t k])
next
  assume k: "key ev = ''ArrowUp''"
  show "handleMenuButtonKeyInput s ev =
              Inr (s\<lparr>defaultPrevented := True,
                     activeElement := Some (HTMLButtonElement (menuItemButtons s ! nat ((int i - 1 + n) mod n)))\<rparr>)"
    unfolding n prev_index [OF i] by (rule arrowUp_focus [OF d i t k])
qed

theorem moveFocus_wraps_witness:
  "handleMenuButtonKeyInput opened \<lparr>target = HTMLButtonElement gamma, key = ''ArrowDown''\<rparr>
     = Inr (opened\<lparr>defaultPrevented := True, activeElement := Some (HTMLButtonElement alpha)\<rparr>)
   \<and> handleMenuButtonKeyInput opened \<lparr>target = HTMLButtonElement alpha, key = ''ArrowUp''\<rparr>
     = Inr (opened\<lparr>defaultPrevented := True, activeElement := Some (HTMLButtonElement gamma)\<rparr>)"
  using moveFocus_wraps [of opened 2 "\<lparr>target = HTMLButtonElement gamma, key = ''ArrowDown''\<rparr>" 3]
    moveFocus_wraps [of opened 0 "\<lparr>target = HTMLButtonElement alpha, key = ''ArrowUp''\<rparr>" 3]
  by (simp add: opened_def mounted_def alpha_def beta_def gamma_def)

text \<open>
  C6, at the input where it fails: on an empty handle set, ArrowDown on a button finds
  \<open>currentButtonIndex = -1 = lastIndex\<close>, so the second test of the ArrowDown block
  holds and \<^verbatim>\<open>menuItemButtons.value[0].focus()\<close> is called on \<^verbatim>\<open>undefined\<close>.
\<close>

theorem arrowDown_on_empty_handles_throws:
  "handleMenuButtonKeyInput (s\<lparr>menuItemButtons := []\<rparr>)
     \<lparr>target = HTMLButtonElement b, key = ''ArrowDown''\<rparr> = Inl TypeError"
  by (simp add: handleMenuButtonKeyInput_def onArrowUp_def onArrowDown_def andThen_def
      focusMenuButtonAt_def arrayGet_def indexOf_def Let_def)

text \<open>
  Everywhere else a target that is not in the handle set is ignored: ArrowUp on any
  handle set, ArrowDown on a non-empty one.
\<close>

lemma arrow_key_not_found_noop:
  assumes "target ev = HTMLButtonElement b"
    and "b \<notin> set (menuItemButtons s)"
    and "key ev = ''ArrowUp'' \<or> key ev = ''ArrowDown'' \<and> menuItemButtons s \<noteq> []"
  shows "handleMenuButtonKeyInput s ev = Inr (s\<lparr>defaultPrevented := True\<rparr>)"
  using assms
  by (auto simp: handleMenuButtonKeyInput_def onArrowUp_def onArrowDown_def onEscape_def
      onTab_def andThen_def indexOf_notin Let_def)

subsection \<open>Opening\<close>

text \<open>
  C2. The opening click on the trigger (or \<open>openMenu\<close> itself) sets the flag; once the
  menu items of the options are in the \<open>menuItems\<close> ref, the run of the watcher rebuilds
  the handle set, one button for each option and in their order. With options it focuses
  the handle at index 0, whatever the selected value is; without options the handle set
  is empty and the focus stays where it was.
\<close>

theorem open_focuses_first:
  assumes r: "rendered p items"
    and c: "\<not> isMenuOpened s"
    and s': "s' = watchEffect ((handlePrincipalButtonClick s)\<lparr>menuItems := items\<rparr>)"
  shows "s' = watchEffect ((openMenu s)\<lparr>menuItems := items\<rparr>)
       \<and> isMenuOpened s'
       \<and> map Some (menuItemButtons s') = map querySelectorButton items
       \<and> length (menuItemButtons s') = length (options p)
       \<and> (options p \<noteq> [] \<longrightarrow>
            activeElement s' = Some (HTMLButtonElement (menuItemButtons s' ! 0)))
       \<and> (options p = [] \<longrightarrow> menuItemButtons s' = [] \<and> activeElement s' = activeElement s)"
proof -
  let ?bs = "List.map_filter querySelectorButton items"
  let ?o = "(openMenu s)\<lparr>menuItems := items\<rparr>"
  from c s' have e: "s' = watchEffect ?o"
    by (simp add: handlePrincipalButtonClick_def)
  have o: "isMenuOpened ?o" "menuItems ?o = items" "activeElement ?o = activeElement s"
    by (simp_all add: openMenu_def)
  from r have m: "map Some ?bs = map querySelectorButton items"
    by (simp add: rendered_def map_filter_all_Some)
  then have "length (map Some ?bs) = length (map querySelectorButton items)" by simp
  with r have l: "length ?bs = length (options p)" by (simp add: rendered_def)
  have b: "menuItemButtons s' = ?bs"
    and a: "activeElement s' = (case ?bs of [] \<Rightarrow> activeElement s | b # _ \<Rightarrow> Some (HTMLButtonElement b))"
    and i: "isMenuOpened s'"
    using o unfolding e by (simp_all add: watchEffect_opened Let_def split: list.splits)
  show ?thesis
  proof (cases ?bs)
    case Nil
    with e i b a l m show ?thesis by simp
  next
    case (Cons x xs)
    with e i b a l m show ?thesis by auto
  qed
qed

theorem open_focuses_first_witness:
  "watchEffect ((handlePrincipalButtonClick mounted)\<lparr>menuItems := threeItems\<rparr>)
     = mounted\<lparr>isMenuOpened := True, menuItems := threeItems,
         menuItemButtons := [alpha, beta, gamma],
         activeElement := Some (HTMLButtonElement alpha), pendingTimeouts := 1\<rparr>
   \<and> watchEffect ((handlePrincipalButtonClick mounted)\<lparr>menuItems := []\<rparr>)
     = mounted\<lparr>isMenuOpened := True, pendingTimeouts := 1\<rparr>"
  using open_focuses_first [of threeOptions threeItems mounted
      "watchEffect ((handlePrincipalButtonClick mounted)\<lparr>menuItems := threeItems\<rparr>)"]
    open_focuses_first [of "threeOptions\<lparr>options := []\<rparr>" "[]" mounted
      "watchEffect ((handlePrincipalButtonClick mounted)\<lparr>menuItems := []\<rparr>)"]
  by (simp add: rendered_def threeOptions_def threeItems_def mounted_def watchEffect_def
      handlePrincipalButtonClick_def openMenu_def focusFirstMenuButton_def arrayGet_def focus_def
      Let_def)

subsection \<open>Committing and closing\<close>

text \<open>
  A click on a button that has text commits, whatever the text is.
\<close>

lemma click_commits_nonempty_button:
  assumes "target ev = HTMLButtonElement b"
    and "textContent b \<noteq> []"
    and "principalMenu s = Some trig"
  shows "handleMenuButtonClick s ev =
           s\<lparr>emitted := emitted s @ [UpdateModelValue (trim (textContent b))],
             isMenuOpened := False, clickListener := False, activeElement := Some trig\<rparr>"
  using assms
  by (simp add: handleMenuButtonClick_def closeMenu_def focusPrincipalMenu_def focus_def)

text \<open>
  C3, amended. For every menu item, as the template renders it (the text of its button
  is the option, a space and whatever text the check mark has), a click whose target is
  the button itself closes the menu, removes the listener, focuses the trigger and emits
  exactly one \<^verbatim>\<open>update:modelValue\<close>, whose payload is the trimmed text of the button.
\<close>

theorem click_on_item_button_commits:
  assumes "target ev = HTMLButtonElement b"
    and "textContent b = itemText option @ iconText"
    and "principalMenu s = Some trig"
  shows "handleMenuButtonClick s ev =
           s\<lparr>emitted := emitted s @ [UpdateModelValue (trim (textContent b))],
             isMenuOpened := False, clickListener := False, activeElement := Some trig\<rparr>"
proof -
  from assms(2) have "textContent b \<noteq> []"
    by (simp add: itemText_def)
  with assms(1) show ?thesis
    using assms(3) by (rule click_commits_nonempty_button)
qed

theorem click_on_item_button_commits_witness:
  "handleMenuButtonClick opened \<lparr>target = HTMLButtonElement gamma\<rparr> =
     opened\<lparr>emitted := [UpdateModelValue (codeUnits ''Gamma'')],
       isMenuOpened := False, clickListener := False, activeElement := Some trigger\<rparr>
   \<and> handleMenuButtonClick opened \<lparr>target = HTMLButtonElement alpha\<rparr> =
     opened\<lparr>emitted := [UpdateModelValue (codeUnits ''Alpha'')],
       isMenuOpened := False, clickListener := False, activeElement := Some trigger\<rparr>"
  using click_on_item_button_commits [of "\<lparr>target = HTMLButtonElement gamma\<rparr>" gamma
      "codeUnits ''Gamma''" "[]" opened trigger]
    click_on_item_button_commits [of "\<lparr>target = HTMLButtonElement alpha\<rparr>" alpha
      "codeUnits ''Alpha''" "[]" opened trigger]
  by (simp add: opened_def mounted_def gamma_def alpha_def trim_def itemText_def codeUnits_def
      isWhiteSpace_def)

text \<open>
  C3 as stated fails when the click on the selected item lands on the check mark drawn
  inside its button: the target is then the icon and not an \<^verbatim>\<open>HTMLButtonElement\<close>, so
  the menu closes and the trigger is focused, but nothing is emitted.
\<close>

theorem click_on_check_mark_emits_nothing:
  "isMenuOpened opened
   \<and> emitted opened = []
   \<and> emitted (handleMenuButtonClick opened \<lparr>target = checkMark\<rparr>) = []
   \<and> isMenuOpened (handleMenuButtonClick opened \<lparr>target = checkMark\<rparr>) = False
   \<and> activeElement (handleMenuButtonClick opened \<lparr>target = checkMark\<rparr>) = Some trigger"
  by (simp add: handleMenuButtonClick_def closeMenu_def focusPrincipalMenu_def focus_def
      opened_def mounted_def checkMark_def)

text \<open>
  C10. A click whose target is not a button, or is a button without text, emits
  nothing and still closes the menu, removes the listener and focuses the trigger.
\<close>

theorem click_without_text_only_closes:
  assumes "target ev = OtherElement n \<or> target ev = HTMLButtonElement b \<and> textContent b = []"
    and "principalMenu s = Some trig"
  shows "handleMenuButtonClick s ev =
           s\<lparr>isMenuOpened := False, clickListener := False, activeElement := Some trig\<rparr>"
  using assms
  by (auto simp: handleMenuButtonClick_def closeMenu_def focusPrincipalMenu_def focus_def)

theorem click_without_text_only_closes_witness:
  "handleMenuButtonClick openedBlank \<lparr>target = HTMLButtonElement blank\<rparr> =
     openedBlank\<lparr>isMenuOpened := False, clickListener := False, activeElement := Some trigger\<rparr>
   \<and> handleMenuButtonClick opened \<lparr>target = checkMark\<rparr> =
     opened\<lparr>isMenuOpened := False, clickListener := False, activeElement := Some trigger\<rparr>"
  using click_without_text_only_closes [of "\<lparr>target = HTMLButtonElement blank\<rparr>" 200 blank openedBlank trigger]
    click_without_text_only_closes [of "\<lparr>target = checkMark\<rparr>" 200 blank opened trigger]
  by (simp add: openedBlank_def opened_def mounted_def blank_def checkMark_def)

text \<open>
  C4. On a menu button, Escape closes the menu, removes the listener and focuses the
  trigger; Tab closes the menu and removes the listener, and leaves the focus alone.
\<close>

theorem escape_and_tab_close:
  assumes "target ev = HTMLButtonElement b"
    and "principalMenu s = Some trig"
  shows "(key ev = ''Escape'' \<longrightarrow>
            handleMenuButtonKeyInput s ev =
              Inr (s\<lparr>isMenuOpened := False, clickListener := False, activeElement := Some trig\<rparr>))
       \<and> (key ev = ''Tab'' \<longrightarrow>
            handleMenuButtonKeyInput s ev =
              Inr (s\<lparr>isMenuOpened := False, clickListener := False\<rparr>))"
  using assms
  by (simp add: handleMenuButtonKeyInput_def onArrowUp_def onArrowDown_def onEscape_def
      onTab_def andThen_def closeMenu_def focusPrincipalMenu_def focus_def Let_def)

theorem escape_and_tab_close_witness:
  "handleMenuButtonKeyInput opened \<lparr>target = HTMLButtonElement beta, key = ''Escape''\<rparr> =
     Inr (opened\<lparr>isMenuOpened := False, clickListener := False, activeElement := Some trigger\<rparr>)
   \<and> handleMenuButtonKeyInput opened \<lparr>target = HTMLButtonElement beta, key = ''Tab''\<rparr> =
     Inr (opened\<lparr>isMenuOpened := False, clickListener := False\<rparr>)"
  using escape_and_tab_close [of "\<lparr>target = HTMLButtonElement beta, key = ''Escape''\<rparr>" beta opened trigger]
    escape_and_tab_close [of "\<lparr>target = HTMLButtonElement beta, key = ''Tab''\<rparr>" beta opened trigger]
  by (simp add: opened_def mounted_def)

text \<open>
  C9. \<open>closeMenu\<close> is idempotent. After it the menu is closed and no listener is
  registered; it emits nothing and moves no focus. On a closed menu it changes nothing
  but the registration of the listener, and nothing at all when none is registered. The
  outside-click listener run after a close, such as the one of the trigger's own click
  on an open menu, leaves the state as the close left it.
\<close>

theorem closeMenu_idempotent:
  "closeMenu (closeMenu s) = closeMenu s
   \<and> \<not> isMenuOpened (closeMenu s)
   \<and> \<not> clickListener (closeMenu s)
   \<and> emitted (closeMenu s) = emitted s
   \<and> activeElement (closeMenu s) = activeElement s
   \<and> closeMenuOnOutsideClick (closeMenu s) ev = closeMenu s
   \<and> closeMenuOnOutsideClick (handlePrincipalButtonClick (s\<lparr>isMenuOpened := True\<rparr>)) ev
       = handlePrincipalButtonClick (s\<lparr>isMenuOpened := True\<rparr>)
   \<and> (\<not> isMenuOpened s \<longrightarrow> closeMenu s = s\<lparr>clickListener := False\<rparr>)
   \<and> (\<not> isMenuOpened s \<and> \<not> clickListener s \<longrightarrow> closeMenu s = s)"
  by (simp add: closeMenu_def closeMenuOnOutsideClick_def handlePrincipalButtonClick_def)

theorem closeMenu_idempotent_witness:
  "\<not> isMenuOpened mounted \<and> \<not> clickListener mounted \<and> closeMenu mounted = mounted
   \<and> closeMenu (closeMenu opened) = closeMenu opened"
  using closeMenu_idempotent [of mounted "\<lparr>target = trigger\<rparr>"]
    closeMenu_idempotent [of opened "\<lparr>target = trigger\<rparr>"]
  by (simp add: mounted_def)

subsection \<open>The outside-click listener\<close>

text \<open>
  Every function that closes the menu goes through \<open>closeMenu\<close> and so leaves no
  listener registered; so does the teardown hook. A registered listener closes the menu
  on a click outside the menu buttons and is gone afterwards, so the next click finds
  nothing to run.
\<close>

lemma closing_removes_listener:
  "\<not> clickListener (closeMenu s)"
  "\<not> clickListener (onBeforeUnmount s)"
  "\<not> clickListener (handleMenuButtonClick s ev)"
  "isMenuOpened s \<Longrightarrow> \<not> clickListener (handlePrincipalButtonClick s)"
  "\<not> isMenuButton s (target ev) \<Longrightarrow> \<not> clickListener (closeMenuOnOutsideClick s ev)"
  by (auto simp: closeMenu_def onBeforeUnmount_def handleMenuButtonClick_def
      handlePrincipalButtonClick_def closeMenuOnOutsideClick_def focusPrincipalMenu_def focus_def
      Let_def split: option.splits element.splits)

lemma documentClick_outside_once:
  assumes "clickListener s" and "\<not> isMenuButton s (target ev)"
  shows "documentClick s ev = closeMenu s"
    and "documentClick (documentClick s ev) ev' = documentClick s ev"
  using assms by (simp_all add: documentClick_def closeMenuOnOutsideClick_def closeMenu_def)

text \<open>
  C5, at the input where it fails. The watcher schedules the installation and nothing
  cancels it: when the menu is closed again before the timer runs (here by a second click
  on the trigger), the callback registers the listener on a closed menu; when the
  component is torn down before the timer runs, the listener is registered after the
  teardown removed it.
\<close>

theorem listener_installed_after_close:
  "map_option (\<lambda>s. (isMenuOpened s, clickListener s, pendingTimeouts s))
     (timeoutCallback (handlePrincipalButtonClick (watchEffect (handlePrincipalButtonClick mounted))))
     = Some (False, True, 0)
   \<and> map_option clickListener
     (timeoutCallback (onBeforeUnmount (watchEffect (handlePrincipalButtonClick mounted))))
     = Some True"
  by (simp add: timeoutCallback_def handlePrincipalButtonClick_def watchEffect_def openMenu_def
      closeMenu_def onBeforeUnmount_def focusFirstMenuButton_def arrayGet_def mounted_def Let_def)

subsection \<open>Selection and the error signal\<close>

text \<open>
  C7. \<open>isSelectedOption\<close> holds exactly when the option equals the current value, as
  strings compared character by character: the empty string, a string of spaces and a
  string that differs only in case are each different from a value \<open>''Beta''\<close>, and the
  empty string differs from a space.
\<close>

theorem isSelectedOption_exact:
  "isSelectedOption p menuOption = (menuOption = modelValue p)
   \<and> isSelectedOption (p\<lparr>modelValue := ''Beta''\<rparr>) ''Beta''
   \<and> \<not> isSelectedOption (p\<lparr>modelValue := ''Beta''\<rparr>) ''beta''
   \<and> \<not> isSelectedOption (p\<lparr>modelValue := ''Beta''\<rparr>) ''Beta ''
   \<and> \<not> isSelectedOption (p\<lparr>modelValue := ''Beta''\<rparr>) ''''
   \<and> \<not> isSelectedOption (p\<lparr>modelValue := ''''\<rparr>) '' ''
   \<and> isSelectedOption (p\<lparr>modelValue := ''''\<rparr>) ''''"
  by (simp add: isSelectedOption_def)

text \<open>
  C8. A focus event on the trigger emits \<^verbatim>\<open>principalButtonFocusIn\<close> with that event
  exactly when \<open>isErrorShown\<close> is set; otherwise nothing is emitted; no other field of
  the state changes.
\<close>

theorem focusIn_emits_iff_error:
  "(emitted (handlePrincipalButtonFocusIn p s ev) = emitted s @ [PrincipalButtonFocusIn ev]) = isErrorShown p
   \<and> (emitted (handlePrincipalButtonFocusIn p s ev) = emitted s) = (\<not> isErrorShown p)
   \<and> handlePrincipalButtonFocusIn p s ev = s\<lparr>emitted := emitted (handlePrincipalButtonFocusIn p s ev)\<rparr>"
  by (cases "isErrorShown p") (simp_all add: handlePrincipalButtonFocusIn_def)

end
